theory Spec2Isabelle
  imports Complex_Main "HOL-Library.Multiset" "HOL-Library.Sublist" "HOL-Library.Product_Lexorder"
begin

section \<open>Values and exceptions\<close>

text \<open>
  A decoded JSON body, as \<^verbatim>\<open>response.json()\<close> returns it. \<open>JNull\<close> is Python's
  \<^verbatim>\<open>None\<close>, which is also what \<^verbatim>\<open>make_api_request\<close> returns on failure. A dict
  is an association list in insertion order (keys distinct, looked up with \<open>map_of\<close>).
  Numbers are idealised as rationals.
\<close>

datatype json =
    JNull
  | JBool bool
  | JNum rat
  | JStr string
  | JArr "json list"
  | JObj "(string \<times> json) list"

text \<open>The exceptions that can leave the modelled functions.\<close>

datatype exn =
    ValueError
  | KeyError string
  | TypeError
  | Unmodelled

text \<open>Python truthiness: \<^verbatim>\<open>not data\<close> is \<open>\<not> truthy data\<close>.\<close>

fun truthy :: "json \<Rightarrow> bool" where
  "truthy JNull = False"
| "truthy (JBool b) = b"
| "truthy (JNum n) = (n \<noteq> 0)"
| "truthy (JStr s) = (s \<noteq> [])"
| "truthy (JArr xs) = (xs \<noteq> [])"
| "truthy (JObj kvs) = (kvs \<noteq> [])"

text \<open>\<^verbatim>\<open>isinstance(data, dict) and key in data\<close>.\<close>

fun dict_has_key :: "string \<Rightarrow> json \<Rightarrow> bool" where
  "dict_has_key k (JObj kvs) = (k \<in> fst ` set kvs)"
| "dict_has_key k _ = False"

text \<open>
  \<^verbatim>\<open>key in data\<close> on an arbitrary value: key membership for a dict, element
  membership for a list, substring test for a string, \<^verbatim>\<open>TypeError\<close> otherwise.
\<close>

fun py_contains :: "string \<Rightarrow> json \<Rightarrow> exn + bool" where
  "py_contains k (JObj kvs) = Inr (k \<in> fst ` set kvs)"
| "py_contains k (JArr xs) = Inr (JStr k \<in> set xs)"
| "py_contains k (JStr s) = Inr (sublist k s)"
| "py_contains k _ = Inl TypeError"

text \<open>\<^verbatim>\<open>data[key]\<close> with a string key.\<close>

fun py_getitem :: "json \<Rightarrow> string \<Rightarrow> exn + json" where
  "py_getitem (JObj kvs) k = (case map_of kvs k of None \<Rightarrow> Inl (KeyError k) | Some v \<Rightarrow> Inr v)"
| "py_getitem _ k = Inl TypeError"

text \<open>Query parameters: a dict from names to scalars; \<^verbatim>\<open>params[k] = v\<close>.\<close>

type_synonym params = "(string \<times> json) list"

fun dict_set :: "params \<Rightarrow> string \<Rightarrow> json \<Rightarrow> params" where
  "dict_set [] k v = [(k, v)]"
| "dict_set ((k', v') # ps) k v = (if k' = k then (k, v) # ps else (k', v') # dict_set ps k v)"

section \<open>Time\<close>

text \<open>
  A naive \<^verbatim>\<open>datetime\<close> is the number of microseconds since midnight of day 0 on the
  local wall clock; a \<^verbatim>\<open>timedelta\<close> is a number of microseconds, and
  \<^verbatim>\<open>total_seconds()\<close> is idealised as exact.
\<close>

definition SECOND :: int where "SECOND = 1000000"
definition MINUTE :: int where "MINUTE = 60 * SECOND"
definition DAY :: int where "DAY = 86400 * SECOND"

text \<open>\<^verbatim>\<open>timedelta.days\<close> (floor division, as \<^verbatim>\<open>timedelta\<close> normalises) and the calendar date.\<close>

definition timedelta_days :: "int \<Rightarrow> int" where
  "timedelta_days d = d div DAY"

definition date_of :: "int \<Rightarrow> int" where
  "date_of t = t div DAY"

section \<open>Constants of fetcher.py\<close>

definition API_BASE_URL :: string where
  "API_BASE_URL = ''https://financialmodelingprep.com/api/v3''"

definition DEFAULT_REQUESTS_PER_MIN :: int where "DEFAULT_REQUESTS_PER_MIN = 5"
definition DEFAULT_REQUESTS_PER_DAY :: int where "DEFAULT_REQUESTS_PER_DAY = 250"
definition REQUEST_DELAY :: int where "REQUEST_DELAY = 12"
definition RATE_LIMIT_BACKOFF_FACTOR :: int where "RATE_LIMIT_BACKOFF_FACTOR = 2"
definition MAX_RETRIES :: int where "MAX_RETRIES = 3"

section \<open>The world: clock, limiter, configuration file, network, randomness\<close>

record RateLimiter =
  requests_per_min :: int
  requests_per_day :: int
  daily_request_count :: int
  minute_request_timestamps :: "int list"
  day_start_time :: int

text \<open>
  What \<^verbatim>\<open>load_config()\<close> yields: the API key and the two entries of
  \<^verbatim>\<open>config["rate_limit"]\<close>, each of which the user's file may leave out.
\<close>

record config =
  cfg_api_key :: string
  cfg_requests_per_min :: "int option"
  cfg_requests_per_day :: "int option"

text \<open>
  The outcome of one \<^verbatim>\<open>requests.get\<close>: a response with a status code and a decoded
  body (bodies are JSON), or a network-level error (\<^verbatim>\<open>RequestException\<close> raised by
  the call itself: timeout, connection reset).
\<close>

datatype reply = Response nat json | NetworkError

text \<open>The observable actions, logged in order.\<close>

datatype event =
    Api_call string params string
  | Quota_sleep int
  | Jitter_sleep int
  | Http_get string params
  | Recorded
  | Backoff_sleep int

text \<open>
  \<open>http\<close> is the injected sequence of outcomes, each with the time the call takes;
  once it is used up the network is down. \<open>rnd\<close> holds the draws of
  \<^verbatim>\<open>random.random()\<close> in millionths; once used up every draw is 0.
\<close>

record world =
  clock :: int
  rate_limiter :: RateLimiter
  config :: config
  http :: "(nat \<times> reply) list"
  rnd :: "int list"
  trace :: "event list"

definition emit :: "event \<Rightarrow> world \<Rightarrow> world" where
  "emit e w = w\<lparr>trace := trace w @ [e]\<rparr>"

text \<open>\<^verbatim>\<open>time.sleep(d)\<close>, logged with the kind of wait it is.\<close>

definition sleep_for :: "(int \<Rightarrow> event) \<Rightarrow> int \<Rightarrow> world \<Rightarrow> world" where
  "sleep_for kind d w = w\<lparr>clock := clock w + d, trace := trace w @ [kind d]\<rparr>"

text \<open>\<^verbatim>\<open>random.uniform(a, b)\<close>, bounds in microseconds.\<close>

definition uniform :: "int \<Rightarrow> int \<Rightarrow> world \<Rightarrow> int \<times> world" where
  "uniform a b w =
     (case rnd w of
        [] \<Rightarrow> (a, w)
      | u # us \<Rightarrow> (a + (b - a) * max 0 (min 1000000 u) div 1000000, w\<lparr>rnd := us\<rparr>))"

definition requests_get :: "string \<Rightarrow> params \<Rightarrow> world \<Rightarrow> reply \<times> world" where
  "requests_get url ps w =
     (case http w of
        [] \<Rightarrow> (NetworkError, emit (Http_get url ps) w)
      | (latency, r) # rest \<Rightarrow>
          (r, emit (Http_get url ps) (w\<lparr>clock := clock w + int latency, http := rest\<rparr>)))"

section \<open>RateLimiter\<close>

definition RateLimiter_init :: "int \<Rightarrow> int \<Rightarrow> int \<Rightarrow> RateLimiter" where
  "RateLimiter_init per_min per_day now =
     \<lparr>requests_per_min = per_min, requests_per_day = per_day, daily_request_count = 0,
      minute_request_timestamps = [], day_start_time = now\<rparr>"

definition reset_if_new_day :: "world \<Rightarrow> world" where
  "reset_if_new_day w =
     (let now = clock w; rl = rate_limiter w
      in if timedelta_days (now - day_start_time rl) > 0
         then w\<lparr>rate_limiter := rl\<lparr>daily_request_count := 0, day_start_time := now\<rparr>\<rparr>
         else w)"

definition clean_old_timestamps :: "world \<Rightarrow> world" where
  "clean_old_timestamps w =
     (let now = clock w; one_minute_ago = now - MINUTE; rl = rate_limiter w
      in w\<lparr>rate_limiter := rl\<lparr>minute_request_timestamps :=
               filter (\<lambda>ts. ts > one_minute_ago) (minute_request_timestamps rl)\<rparr>\<rparr>)"

text \<open>The closing \<^verbatim>\<open>time.sleep(random.uniform(0.1, 0.5))\<close>.\<close>

definition small_delay :: "world \<Rightarrow> world" where
  "small_delay w = (case uniform 100000 500000 w of (d, w') \<Rightarrow> sleep_for Jitter_sleep d w')"

definition wait_if_needed :: "world \<Rightarrow> (exn + unit) \<times> world" where
  "wait_if_needed w =
     (let w1 = clean_old_timestamps (reset_if_new_day w); rl = rate_limiter w1
      in if daily_request_count rl \<ge> requests_per_day rl then
           (let now = clock w1;
                tomorrow = date_of now * DAY + DAY;
                sleep_time = (tomorrow - now) + 10 * SECOND;
                w2 = sleep_for Quota_sleep sleep_time w1
            in (Inr (), w2\<lparr>rate_limiter := rl\<lparr>daily_request_count := 0,
                            minute_request_timestamps := [], day_start_time := clock w2\<rparr>\<rparr>))
         else if int (length (minute_request_timestamps rl)) \<ge> requests_per_min rl then
           (case minute_request_timestamps rl of
              [] \<Rightarrow> (Inl ValueError, w1)
            | t # ts \<Rightarrow>
                (let oldest = fold min ts t;
                     seconds_since_oldest = clock w1 - oldest
                 in if seconds_since_oldest < 60 * SECOND then
                      (let wait_time = 60 * SECOND - seconds_since_oldest + 1 * SECOND;
                           w2 = sleep_for Quota_sleep wait_time w1
                       in (Inr (), small_delay
                             (w2\<lparr>rate_limiter := rl\<lparr>minute_request_timestamps := [clock w2]\<rparr>\<rparr>)))
                    else (Inr (), small_delay (clean_old_timestamps w1))))
         else (Inr (), small_delay w1))"

definition add_request :: "world \<Rightarrow> world" where
  "add_request w =
     (let now = clock w; rl = rate_limiter w
      in emit Recorded
           (w\<lparr>rate_limiter := rl\<lparr>minute_request_timestamps := minute_request_timestamps rl @ [now],
                                 daily_request_count := daily_request_count rl + 1\<rparr>\<rparr>))"

definition configure_rate_limiter :: "world \<Rightarrow> world" where
  "configure_rate_limiter w =
     (let per_min = (case cfg_requests_per_min (config w) of
                       None \<Rightarrow> DEFAULT_REQUESTS_PER_MIN | Some n \<Rightarrow> n);
          per_day = (case cfg_requests_per_day (config w) of
                       None \<Rightarrow> DEFAULT_REQUESTS_PER_DAY | Some n \<Rightarrow> n)
      in if per_min \<noteq> requests_per_min (rate_limiter w) \<or> per_day \<noteq> requests_per_day (rate_limiter w)
         then w\<lparr>rate_limiter := RateLimiter_init per_min per_day (clock w)\<rparr>
         else w)"

section \<open>make_api_request\<close>

text \<open>
  One pass through the body of the \<^verbatim>\<open>for attempt in range(max_retries)\<close> loop.
  \<open>Inr (Some v)\<close>: the function returns \<open>v\<close>; \<open>Inr None\<close>: the loop goes on;
  \<open>Inl e\<close>: an exception that no \<^verbatim>\<open>except\<close> clause catches.
\<close>

definition backoff :: "nat \<Rightarrow> int" where
  "backoff attempt = REQUEST_DELAY * RATE_LIMIT_BACKOFF_FACTOR ^ attempt * SECOND"

definition attempt_once :: "string \<Rightarrow> params \<Rightarrow> nat \<Rightarrow> world \<Rightarrow> (exn + json option) \<times> world" where
  "attempt_once url ps attempt w =
     (case wait_if_needed w of
        (Inl e, w1) \<Rightarrow> (Inl e, w1)
      | (Inr _, w1) \<Rightarrow>
         (case requests_get url ps w1 of
            (NetworkError, w2) \<Rightarrow> (Inr None, sleep_for Backoff_sleep (backoff attempt) w2)
          | (Response status_code data, w2) \<Rightarrow>
             (let w3 = add_request w2
              in if 400 \<le> status_code \<and> status_code < 600 then
                   (if status_code = 429 then
                      (case uniform (1 * SECOND) (5 * SECOND) w3 of
                         (j, w4) \<Rightarrow> (Inr None, sleep_for Backoff_sleep (backoff attempt + j) w4))
                    else (Inr (Some JNull), w3))
                 else if dict_has_key ''Error Message'' data then (Inr (Some JNull), w3)
                 else (Inr (Some data), w3))))"

fun retry_loop :: "string \<Rightarrow> params \<Rightarrow> nat \<Rightarrow> nat \<Rightarrow> world \<Rightarrow> (exn + json) \<times> world" where
  "retry_loop url ps attempt 0 w = (Inr JNull, w)"
| "retry_loop url ps attempt (Suc k) w =
     (case attempt_once url ps attempt w of
        (Inl e, w') \<Rightarrow> (Inl e, w')
      | (Inr (Some v), w') \<Rightarrow> (Inr v, w')
      | (Inr None, w') \<Rightarrow> retry_loop url ps (Suc attempt) k w')"

definition make_api_request ::
  "string \<Rightarrow> params \<Rightarrow> string option \<Rightarrow> int \<Rightarrow> string \<Rightarrow> world \<Rightarrow> (exn + json) \<times> world" where
  "make_api_request endpoint ps api_key max_retries base_url w =
     (let w1 = configure_rate_limiter (emit (Api_call endpoint ps base_url) w);
          key = (case api_key of None \<Rightarrow> cfg_api_key (config w1) | Some k \<Rightarrow> k)
      in if key = [] then (Inr JNull, w1)
         else retry_loop (base_url @ ''/'' @ endpoint) (dict_set ps ''apikey'' (JStr key))
                0 (nat max_retries) w1)"

section \<open>Reading the trace\<close>

fun is_backoff :: "event \<Rightarrow> bool" where
  "is_backoff (Backoff_sleep d) = True" | "is_backoff _ = False"
fun is_get :: "event \<Rightarrow> bool" where
  "is_get (Http_get u p) = True" | "is_get _ = False"
fun is_limiter_sleep :: "event \<Rightarrow> bool" where
  "is_limiter_sleep (Quota_sleep d) = True" | "is_limiter_sleep (Jitter_sleep d) = True" | "is_limiter_sleep _ = False"

definition backoff_waits :: "world \<Rightarrow> nat" where
  "backoff_waits w = length (filter is_backoff (trace w))"
definition http_attempts :: "world \<Rightarrow> nat" where
  "http_attempts w = length (filter is_get (trace w))"
definition recorded :: "world \<Rightarrow> nat" where
  "recorded w = count_list (trace w) Recorded"

text \<open>The outcome the next \<^verbatim>\<open>requests.get\<close> will have.\<close>

definition next_reply :: "world \<Rightarrow> reply" where
  "next_reply w = (case http w of [] \<Rightarrow> NetworkError | (l, r) # rest \<Rightarrow> r)"

text \<open>
  A world at time 0 with the module-level limiter (default quotas), a configuration file
  holding an API key and no quota overrides, and no network.
\<close>

definition idle_world :: world where
  "idle_world =
     \<lparr>clock = 0,
      rate_limiter = RateLimiter_init DEFAULT_REQUESTS_PER_MIN DEFAULT_REQUESTS_PER_DAY 0,
      config = \<lparr>cfg_api_key = ''demo'', cfg_requests_per_min = None, cfg_requests_per_day = None\<rparr>,
      http = [], rnd = [], trace = []\<rparr>"

section \<open>Driving the limiter\<close>

text \<open>
  A run of \<^verbatim>\<open>wait_if_needed()\<close> / \<^verbatim>\<open>add_request()\<close> pairs on one limiter: before
  each acquisition the given time passes; the result lists the times at which the requests
  were recorded. The run stops if the limiter raises.
\<close>

definition elapse :: "int \<Rightarrow> world \<Rightarrow> world" where
  "elapse d w = w\<lparr>clock := clock w + d\<rparr>"

fun paced_requests :: "int list \<Rightarrow> world \<Rightarrow> int list \<times> world" where
  "paced_requests [] w = ([], w)"
| "paced_requests (gap # gaps) w =
     (case wait_if_needed (elapse gap w) of
        (Inl e, w1) \<Rightarrow> ([], w1)
      | (Inr _, w1) \<Rightarrow>
          (case paced_requests gaps (add_request w1) of (ts, w2) \<Rightarrow> (clock w1 # ts, w2)))"

definition requests_within :: "int \<Rightarrow> int \<Rightarrow> int list \<Rightarrow> nat" where
  "requests_within lo hi ts = length (filter (\<lambda>t. lo < t \<and> t \<le> hi) ts)"

fun is_quota_sleep :: "event \<Rightarrow> bool" where
  "is_quota_sleep (Quota_sleep d) = True" | "is_quota_sleep _ = False"

section \<open>Tables\<close>

text \<open>
  A pandas \<^verbatim>\<open>DataFrame\<close>, as far as the fetchers use it: the index labels (\<open>None\<close>
  for the default \<^verbatim>\<open>RangeIndex\<close>), the column names, and the rows, each aligned with
  the columns. A cell is a raw JSON value, \<^verbatim>\<open>NaN\<close> for a key a row lacks, or the result
  of \<^verbatim>\<open>pd.to_datetime\<close>: a timestamp or \<^verbatim>\<open>NaT\<close>.

  \<^verbatim>\<open>pd.to_datetime\<close> itself is a parameter, applied cell by cell: \<open>Inl e\<close> when pandas
  raises on the value, \<open>Inr None\<close> for \<^verbatim>\<open>NaT\<close>, \<open>Inr (Some t)\<close> for a timestamp.

  \<^verbatim>\<open>pd.DataFrame(x)\<close> is modelled for \<^verbatim>\<open>None\<close> (the empty frame) and for a list of
  dicts, the shape of every payload of this API (columns: the keys in order of first
  appearance). Any other shape is reported as \<open>Unmodelled\<close> rather than guessed.
  \<^verbatim>\<open>sort_index\<close> orders by timestamp with \<^verbatim>\<open>NaT\<close> last; no property below depends
  on the relative order it gives to equal labels.
\<close>

datatype cell = Val json | NaN | Timestamp int | NaT

record frame =
  index_col :: "cell list option"
  columns :: "string list"
  rows :: "cell list list"

type_synonym parser = "json \<Rightarrow> exn + int option"

text \<open>Propagating an exception.\<close>

definition and_then :: "exn + 'a \<Rightarrow> ('a \<Rightarrow> exn + 'b) \<Rightarrow> exn + 'b" where
  "and_then r f = (case r of Inl e \<Rightarrow> Inl e | Inr x \<Rightarrow> f x)"

fun as_records :: "json list \<Rightarrow> (string \<times> json) list list option" where
  "as_records [] = Some []"
| "as_records (JObj kvs # xs) = map_option ((#) kvs) (as_records xs)"
| "as_records (_ # xs) = None"

definition union_keys :: "(string \<times> json) list list \<Rightarrow> string list" where
  "union_keys recs = rev (remdups (rev (concat (map (map fst) recs))))"

definition record_row :: "string list \<Rightarrow> (string \<times> json) list \<Rightarrow> cell list" where
  "record_row cols kvs = map (\<lambda>c. case map_of kvs c of None \<Rightarrow> NaN | Some v \<Rightarrow> Val v) cols"

definition DataFrame :: "json \<Rightarrow> exn + frame" where
  "DataFrame data =
     (case data of
        JNull \<Rightarrow> Inr \<lparr>index_col = None, columns = [], rows = []\<rparr>
      | JArr items \<Rightarrow>
          (case as_records items of
             None \<Rightarrow> Inl Unmodelled
           | Some recs \<Rightarrow>
               (let cols = union_keys recs
                in Inr \<lparr>index_col = None, columns = cols, rows = map (record_row cols) recs\<rparr>))
      | _ \<Rightarrow> Inl Unmodelled)"

text \<open>\<^verbatim>\<open>df.empty\<close>: some axis has length 0.\<close>

definition frame_empty :: "frame \<Rightarrow> bool" where
  "frame_empty df = (rows df = [] \<or> columns df = [])"

fun index_of :: "'a \<Rightarrow> 'a list \<Rightarrow> nat option" where
  "index_of x [] = None"
| "index_of x (y # ys) = (if x = y then Some 0 else map_option Suc (index_of x ys))"

definition cell_at :: "nat \<Rightarrow> cell list \<Rightarrow> cell" where
  "cell_at i r = (if i < length r then r ! i else NaN)"

text \<open>\<^verbatim>\<open>df[c]\<close> and \<^verbatim>\<open>df[c] = values\<close>.\<close>

definition get_column :: "string \<Rightarrow> frame \<Rightarrow> exn + cell list" where
  "get_column c df =
     (case index_of c (columns df) of
        None \<Rightarrow> Inl (KeyError c)
      | Some i \<Rightarrow> Inr (map (cell_at i) (rows df)))"

definition set_column :: "string \<Rightarrow> cell list \<Rightarrow> frame \<Rightarrow> frame" where
  "set_column c vals df =
     (case index_of c (columns df) of
        None \<Rightarrow> df\<lparr>columns := columns df @ [c], rows := map2 (\<lambda>r v. r @ [v]) (rows df) vals\<rparr>
      | Some i \<Rightarrow> df\<lparr>rows := map2 (\<lambda>r v. r[i := v]) (rows df) vals\<rparr>)"

definition to_datetime_cell :: "parser \<Rightarrow> cell \<Rightarrow> exn + cell" where
  "to_datetime_cell parse c =
     (case c of
        Val j \<Rightarrow> (case parse j of
                     Inl e \<Rightarrow> Inl e
                   | Inr None \<Rightarrow> Inr NaT
                   | Inr (Some t) \<Rightarrow> Inr (Timestamp t))
      | NaN \<Rightarrow> Inr NaT
      | Timestamp t \<Rightarrow> Inr (Timestamp t)
      | NaT \<Rightarrow> Inr NaT)"

fun to_datetime :: "parser \<Rightarrow> cell list \<Rightarrow> exn + cell list" where
  "to_datetime parse [] = Inr []"
| "to_datetime parse (c # cs) =
     and_then (to_datetime_cell parse c) (\<lambda>d.
     and_then (to_datetime parse cs) (\<lambda>ds. Inr (d # ds)))"

text \<open>\<^verbatim>\<open>df[c] = pd.to_datetime(df[c])\<close>.\<close>

definition convert_dates :: "parser \<Rightarrow> string \<Rightarrow> frame \<Rightarrow> exn + frame" where
  "convert_dates parse c df =
     and_then (get_column c df) (\<lambda>cs.
     and_then (to_datetime parse cs) (\<lambda>ds. Inr (set_column c ds df)))"

definition drop_at :: "nat \<Rightarrow> 'a list \<Rightarrow> 'a list" where
  "drop_at i xs = take i xs @ drop (Suc i) xs"

definition set_index :: "string \<Rightarrow> frame \<Rightarrow> exn + frame" where
  "set_index c df =
     (case index_of c (columns df) of
        None \<Rightarrow> Inl (KeyError c)
      | Some i \<Rightarrow> Inr \<lparr>index_col = Some (map (cell_at i) (rows df)),
                        columns = drop_at i (columns df),
                        rows = map (drop_at i) (rows df)\<rparr>)"

fun date_key :: "cell \<Rightarrow> nat \<times> int" where
  "date_key (Timestamp t) = (0, t)"
| "date_key _ = (1, 0)"

definition sort_index :: "frame \<Rightarrow> frame" where
  "sort_index df =
     (case index_col df of
        None \<Rightarrow> df
      | Some ks \<Rightarrow>
          (let ps = sort_key (\<lambda>p. date_key (fst p)) (zip ks (rows df))
           in df\<lparr>index_col := Some (map fst ps), rows := map snd ps\<rparr>))"

definition rename_columns :: "(string \<times> string) list \<Rightarrow> frame \<Rightarrow> frame" where
  "rename_columns m df =
     df\<lparr>columns := map (\<lambda>c. case map_of m c of None \<Rightarrow> c | Some c' \<Rightarrow> c') (columns df)\<rparr>"

text \<open>Truthiness of an \<^verbatim>\<open>Optional[str]\<close> argument, and the argument as a parameter value.\<close>

definition str_truthy :: "string option \<Rightarrow> bool" where
  "str_truthy s = (case s of None \<Rightarrow> False | Some x \<Rightarrow> x \<noteq> [])"

definition str_param :: "string option \<Rightarrow> json" where
  "str_param s = (case s of None \<Rightarrow> JNull | Some x \<Rightarrow> JStr x)"

text \<open>Sequencing two steps on the world; an exception ends the run, the world persists.\<close>

definition then_fetch ::
  "(exn + 'a) \<times> world \<Rightarrow> ('a \<Rightarrow> world \<Rightarrow> (exn + 'b) \<times> world) \<Rightarrow> (exn + 'b) \<times> world" where
  "then_fetch r f = (case r of (Inl e, w) \<Rightarrow> (Inl e, w) | (Inr x, w) \<Rightarrow> f x w)"

section \<open>fetch_historical_price\<close>

text \<open>
  \<open>historical_price_table\<close> is lines 237--264 of \<^verbatim>\<open>fetch_historical_price\<close>: what
  the function does with the payload once \<^verbatim>\<open>make_api_request\<close> has returned.
\<close>

definition price_columns :: "(string \<times> string) list" where
  "price_columns = [(''open'', ''Open''), (''high'', ''High''), (''low'', ''Low''),
     (''close'', ''Close''), (''volume'', ''Volume''), (''adjClose'', ''Adj Close'')]"

definition historical_price_table :: "parser \<Rightarrow> json \<Rightarrow> exn + frame option" where
  "historical_price_table parse data =
     (if \<not> truthy data then Inr None
      else and_then (py_contains ''historical'' data) (\<lambda>present.
        if \<not> present then Inr None
        else and_then (py_getitem data ''historical'') (\<lambda>h.
             and_then (DataFrame h) (\<lambda>df.
             and_then (convert_dates parse ''date'' df) (\<lambda>df.
             and_then (set_index ''date'' df) (\<lambda>df.
             Inr (Some (rename_columns price_columns (sort_index df)))))))))"

definition fetch_historical_price ::
  "parser \<Rightarrow> string \<Rightarrow> string option \<Rightarrow> string option \<Rightarrow> string option \<Rightarrow> world
     \<Rightarrow> (exn + frame option) \<times> world" where
  "fetch_historical_price parse ticker from_date to_date api_key w =
     (let ranged = (str_truthy from_date \<and> str_truthy to_date);
          endpoint = (if ranged then ''historical-price-full''
                      else ''historical-price-full/'' @ ticker);
          ps = (if ranged
                then [(''serietype'', JStr ''line''), (''from'', str_param from_date),
                      (''to'', str_param to_date)]
                else [(''serietype'', JStr ''line'')])
      in then_fetch (make_api_request endpoint ps api_key MAX_RETRIES API_BASE_URL w)
           (\<lambda>data w'. (historical_price_table parse data, w')))"

text \<open>
  A date parser given by a finite table of the strings it knows; it raises on any other
  string and maps \<^verbatim>\<open>None\<close> to \<^verbatim>\<open>NaT\<close>. Used to run the model on concrete payloads.
\<close>

definition known_dates :: "(string \<times> int) list \<Rightarrow> parser" where
  "known_dates tbl j =
     (case j of
        JStr s \<Rightarrow> (case map_of tbl s of None \<Rightarrow> Inl ValueError | Some t \<Rightarrow> Inr (Some t))
      | JNull \<Rightarrow> Inr None
      | _ \<Rightarrow> Inl TypeError)"

section \<open>Strings\<close>

text \<open>\<^verbatim>\<open>str.lower()\<close> on ASCII, and \<^verbatim>\<open>template.format(ticker=t)\<close>.\<close>

definition lower_char :: "char \<Rightarrow> char" where
  "lower_char c = (let n = (of_char c :: nat) in if 65 \<le> n \<and> n \<le> 90 then char_of (n + 32) else c)"

definition lower :: "string \<Rightarrow> string" where
  "lower s = map lower_char s"

function format_ticker :: "string \<Rightarrow> string \<Rightarrow> string" where
  "format_ticker [] t = []"
| "format_ticker (c # cs) t =
     (if prefix ''{ticker}'' (c # cs) then t @ format_ticker (drop 7 cs) t
      else c # format_ticker cs t)"
  by pat_completeness auto
termination
  by (relation "measure (\<lambda>(s, t). length s)") auto

section \<open>fetch_intraday_prices\<close>

definition intraday_columns :: "(string \<times> string) list" where
  "intraday_columns = [(''open'', ''Open''), (''high'', ''High''), (''low'', ''Low''),
     (''close'', ''Close''), (''volume'', ''Volume'')]"

definition valid_intervals :: "string list" where
  "valid_intervals = [''1min'', ''5min'', ''15min'', ''30min'', ''1hour'', ''4hour'']"

definition intraday_table :: "parser \<Rightarrow> json \<Rightarrow> exn + frame option" where
  "intraday_table parse data =
     (if \<not> truthy data then Inr None
      else and_then (DataFrame data) (\<lambda>df.
        if frame_empty df then Inr None
        else and_then (convert_dates parse ''date'' df) (\<lambda>df.
             and_then (set_index ''date'' df) (\<lambda>df.
             Inr (Some (rename_columns intraday_columns (sort_index df)))))))"

definition fetch_intraday_prices ::
  "parser \<Rightarrow> string \<Rightarrow> string \<Rightarrow> string option \<Rightarrow> string option \<Rightarrow> bool \<Rightarrow> string option
     \<Rightarrow> world \<Rightarrow> (exn + frame option) \<times> world" where
  "fetch_intraday_prices parse ticker interval from_date to_date extended api_key w =
     (if \<not> str_truthy from_date \<or> \<not> str_truthy to_date then (Inr None, w)
      else if interval \<notin> set valid_intervals then (Inr None, w)
      else
        (let ps = [(''from'', str_param from_date), (''to'', str_param to_date),
                   (''extended'', JStr (if extended then ''true'' else ''false''))]
         in then_fetch
              (make_api_request (''historical-chart/'' @ interval @ ''/'' @ ticker) ps api_key
                 MAX_RETRIES API_BASE_URL w)
              (\<lambda>data w'. (intraday_table parse data, w'))))"

section \<open>fetch_historical_dividends\<close>

definition dividends_table :: "parser \<Rightarrow> json \<Rightarrow> exn + frame option" where
  "dividends_table parse data =
     (if \<not> truthy data then Inr None
      else and_then (py_contains ''historical'' data) (\<lambda>present.
        if \<not> present then Inr None
        else and_then (py_getitem data ''historical'') (\<lambda>h.
             and_then (DataFrame h) (\<lambda>df.
               if frame_empty df then Inr None
               else and_then (convert_dates parse ''date'' df) (\<lambda>df.
                    and_then (convert_dates parse ''paymentDate'' df) (\<lambda>df.
                    and_then (convert_dates parse ''recordDate'' df) (\<lambda>df.
                    and_then (convert_dates parse ''declarationDate'' df) (\<lambda>df.
                    and_then (set_index ''date'' df) (\<lambda>df.
                    Inr (Some (sort_index df)))))))))))"

definition fetch_historical_dividends ::
  "parser \<Rightarrow> string \<Rightarrow> string option \<Rightarrow> world \<Rightarrow> (exn + frame option) \<times> world" where
  "fetch_historical_dividends parse ticker api_key w =
     then_fetch
       (make_api_request ''historical-price-full/stock_dividend'' [(''symbol'', JStr ticker)] api_key
          MAX_RETRIES API_BASE_URL w)
       (\<lambda>data w'. (dividends_table parse data, w'))"

section \<open>fetch_company_profile\<close>

definition profile_table :: "json \<Rightarrow> exn + frame option" where
  "profile_table data =
     and_then (DataFrame data) (\<lambda>df. if frame_empty df then Inr None else Inr (Some df))"

definition fetch_company_profile ::
  "string \<Rightarrow> string option \<Rightarrow> world \<Rightarrow> (exn + frame option) \<times> world" where
  "fetch_company_profile ticker api_key w =
     then_fetch (make_api_request ''profile/{ticker}'' [] api_key MAX_RETRIES API_BASE_URL w)
       (\<lambda>data w1.
          then_fetch
            (if \<not> truthy data
             then make_api_request ''profile'' [(''symbol'', JStr ticker)] api_key
                    MAX_RETRIES API_BASE_URL w1
             else (Inr data, w1))
            (\<lambda>data w2. if \<not> truthy data then (Inr None, w2) else (profile_table data, w2)))"

section \<open>Financial statements\<close>

text \<open>
  \<^verbatim>\<open>fetch_income_statement\<close>, \<^verbatim>\<open>fetch_balance_sheet\<close> and \<^verbatim>\<open>fetch_cash_flow\<close> are
  the same code up to the endpoint name, which \<open>fetch_statement\<close> takes as \<open>stem\<close>.
  \<open>statement_primary\<close> is the descriptor the first request uses, \<open>statement_secondary\<close>
  the one of the alternative request, \<open>statement_table\<close> the code after both.
\<close>

fun convert_all :: "parser \<Rightarrow> string list \<Rightarrow> frame \<Rightarrow> exn + frame" where
  "convert_all parse [] df = Inr df"
| "convert_all parse (c # cs) df = and_then (convert_dates parse c df) (convert_all parse cs)"

definition statement_table :: "parser \<Rightarrow> string \<Rightarrow> json \<Rightarrow> exn + frame option" where
  "statement_table parse ticker data =
     and_then (DataFrame data) (\<lambda>df.
       if frame_empty df then Inr None
       else
         (let date_cols = filter (\<lambda>col. sublist ''date'' (lower col)) (columns df)
          in and_then (convert_all parse date_cols df) (\<lambda>df.
               (let df = set_column ''symbol'' (replicate (length (rows df)) (Val (JStr ticker))) df
                in if ''date'' \<in> set (columns df)
                   then and_then (set_index ''date'' df) (\<lambda>df. Inr (Some (sort_index df)))
                   else Inr (Some df)))))"

definition statement_primary :: "string \<Rightarrow> string \<Rightarrow> string \<Rightarrow> int \<Rightarrow> string \<times> params" where
  "statement_primary stem ticker period limit =
     (let (endpoint, ps) =
            (if lower period = ''annual''
               then (stem @ ''/{ticker}'', [(''limit'', JNum (of_int limit))])
             else if lower period = ''quarter''
               then (stem @ ''/{ticker}'', [(''period'', JStr ''quarter''), (''limit'', JNum (of_int limit))])
             else (stem, [(''symbol'', JStr ticker), (''limit'', JNum (of_int limit))]))
      in (if sublist ''{ticker}'' endpoint then format_ticker endpoint ticker else endpoint, ps))"

definition statement_secondary :: "string \<Rightarrow> string \<Rightarrow> string \<Rightarrow> int \<Rightarrow> string \<times> params" where
  "statement_secondary stem ticker period limit =
     (stem,
      if lower period = ''quarter''
      then [(''symbol'', JStr ticker), (''limit'', JNum (of_int limit)), (''period'', JStr ''quarter'')]
      else [(''symbol'', JStr ticker), (''limit'', JNum (of_int limit))])"

definition fetch_statement ::
  "string \<Rightarrow> parser \<Rightarrow> string \<Rightarrow> string \<Rightarrow> int \<Rightarrow> string option \<Rightarrow> world
     \<Rightarrow> (exn + frame option) \<times> world" where
  "fetch_statement stem parse ticker period limit api_key w =
     then_fetch
       (make_api_request (fst (statement_primary stem ticker period limit))
          (snd (statement_primary stem ticker period limit)) api_key MAX_RETRIES API_BASE_URL w)
       (\<lambda>data w1.
          then_fetch
            (if \<not> truthy data
             then make_api_request (fst (statement_secondary stem ticker period limit))
                    (snd (statement_secondary stem ticker period limit)) api_key
                    MAX_RETRIES API_BASE_URL w1
             else (Inr data, w1))
            (\<lambda>data w2. if \<not> truthy data then (Inr None, w2)
                        else (statement_table parse ticker data, w2)))"

definition fetch_income_statement ::
  "parser \<Rightarrow> string \<Rightarrow> string \<Rightarrow> int \<Rightarrow> string option \<Rightarrow> world \<Rightarrow> (exn + frame option) \<times> world" where
  "fetch_income_statement = fetch_statement ''income-statement''"

definition fetch_balance_sheet ::
  "parser \<Rightarrow> string \<Rightarrow> string \<Rightarrow> int \<Rightarrow> string option \<Rightarrow> world \<Rightarrow> (exn + frame option) \<times> world" where
  "fetch_balance_sheet = fetch_statement ''balance-sheet-statement''"

definition fetch_cash_flow ::
  "parser \<Rightarrow> string \<Rightarrow> string \<Rightarrow> int \<Rightarrow> string option \<Rightarrow> world \<Rightarrow> (exn + frame option) \<times> world" where
  "fetch_cash_flow = fetch_statement ''cash-flow-statement''"

section \<open>fetch_ticker_data\<close>

text \<open>The result dict, in insertion order.\<close>

type_synonym tables = "(string \<times> frame) list"

definition put :: "string \<Rightarrow> frame option \<Rightarrow> tables \<Rightarrow> tables" where
  "put label t result = (case t of None \<Rightarrow> result | Some df \<Rightarrow> result @ [(label, df)])"

definition earnings_of :: "tables \<Rightarrow> tables" where
  "earnings_of result =
     (case map_of result ''income_stmt'' of
        None \<Rightarrow> result
      | Some df \<Rightarrow>
          (case index_of ''netIncome'' (columns df) of
             None \<Rightarrow> result
           | Some i \<Rightarrow> result @ [(''earnings'',
                 df\<lparr>columns := [''Net Income''], rows := map (\<lambda>r. [cell_at i r]) (rows df)\<rparr>)]))"

definition fetch_ticker_data ::
  "parser \<Rightarrow> string \<Rightarrow> string option \<Rightarrow> string \<Rightarrow> int \<Rightarrow> bool \<Rightarrow> bool \<Rightarrow> string option
     \<Rightarrow> string option \<Rightarrow> world \<Rightarrow> (exn + tables) \<times> world" where
  "fetch_ticker_data parse ticker api_key period years include_intraday include_dividends
     from_date to_date w =
     then_fetch (fetch_historical_price parse ticker from_date to_date api_key w) (\<lambda>price_data w.
     then_fetch (if include_intraday \<and> str_truthy from_date \<and> str_truthy to_date
                 then fetch_intraday_prices parse ticker ''1hour'' from_date to_date False api_key w
                 else (Inr None, w)) (\<lambda>intraday_data w.
     then_fetch (if include_dividends then fetch_historical_dividends parse ticker api_key w
                 else (Inr None, w)) (\<lambda>dividend_data w.
     then_fetch (fetch_company_profile ticker api_key w) (\<lambda>profile_data w.
     then_fetch (fetch_income_statement parse ticker period years api_key w) (\<lambda>income_data w.
     then_fetch (fetch_balance_sheet parse ticker period years api_key w) (\<lambda>balance_data w.
     then_fetch (fetch_cash_flow parse ticker period years api_key w) (\<lambda>cash_flow_data w.
       (Inr (earnings_of
               (put ''cash_flow'' cash_flow_data
               (put ''balance_sheet'' balance_data
               (put ''income_stmt'' income_data
               (put ''profile'' profile_data
               (put ''dividends'' dividend_data
               (put ''intraday'' intraday_data
               (put ''ohlcv'' price_data [])))))))), w))))))))"

text \<open>The calls of \<^verbatim>\<open>make_api_request\<close> a run has made, in order.\<close>

fun is_api_call :: "event \<Rightarrow> bool" where
  "is_api_call (Api_call e p b) = True" | "is_api_call _ = False"

definition api_calls :: "world \<Rightarrow> event list" where
  "api_calls w = filter is_api_call (trace w)"

section \<open>cli.handle_fetch: the intraday range limit\<close>

text \<open>
  Lines 291--299 of cli.py. Both dates have been validated with \<^verbatim>\<open>strptime\<close> before,
  so parsing them again cannot fail; \<^verbatim>\<open>strptime\<close> and \<^verbatim>\<open>strftime\<close> are parameters.
  The result is the from-date handed on to the fetcher.
\<close>

definition limit_intraday_range ::
  "(string \<Rightarrow> int) \<Rightarrow> (int \<Rightarrow> string) \<Rightarrow> bool \<Rightarrow> string option \<Rightarrow> string option \<Rightarrow> string option" where
  "limit_intraday_range strptime strftime include_intraday from_date to_date =
     (case (from_date, to_date) of
        (Some f, Some t) \<Rightarrow>
          if include_intraday \<and> f \<noteq> [] \<and> t \<noteq> [] then
            (let from_date_obj = strptime f; to_date_obj = strptime t;
                 date_diff = timedelta_days (to_date_obj - from_date_obj)
             in if date_diff > 7 then Some (strftime (to_date_obj - 7 * DAY)) else from_date)
          else from_date
      | _ \<Rightarrow> from_date)"

section \<open>Worlds to run the model on\<close>


section \<open>Properties of the rate limiter\<close>

lemma small_delay_frame:
  "http (small_delay w) = http w" "config (small_delay w) = config w"
  "rate_limiter (small_delay w) = rate_limiter w"
  "\<exists>d. trace (small_delay w) = trace w @ [Jitter_sleep d]"
  by (auto simp: small_delay_def uniform_def sleep_for_def split: list.splits)

lemma wait_if_needed_frame:
  "http (snd (wait_if_needed w)) = http w"
  "config (snd (wait_if_needed w)) = config w"
  "requests_per_min (rate_limiter (snd (wait_if_needed w))) = requests_per_min (rate_limiter w)"
  "requests_per_day (rate_limiter (snd (wait_if_needed w))) = requests_per_day (rate_limiter w)"
  by (auto simp: wait_if_needed_def Let_def small_delay_frame clean_old_timestamps_def
        reset_if_new_day_def sleep_for_def split: list.splits)

lemma small_delay_filter:
  "(\<And>d. \<not> P (Jitter_sleep d)) \<Longrightarrow> filter P (trace (small_delay w)) = filter P (trace w)"
  by (auto simp: small_delay_def uniform_def sleep_for_def split: list.splits)

lemma wait_if_needed_filter:
  "(\<And>d. \<not> P (Jitter_sleep d)) \<Longrightarrow> (\<And>d. \<not> P (Quota_sleep d)) \<Longrightarrow>
   filter P (trace (snd (wait_if_needed w))) = filter P (trace w)"
  by (auto simp: wait_if_needed_def Let_def small_delay_filter clean_old_timestamps_def
        reset_if_new_day_def sleep_for_def split: list.splits)

lemma wait_if_needed_trace:
  "\<exists>evs. trace (snd (wait_if_needed w)) = trace w @ evs \<and> (\<forall>e\<in>set evs. is_limiter_sleep e)"
  by (auto simp: wait_if_needed_def Let_def small_delay_def uniform_def clean_old_timestamps_def
        reset_if_new_day_def sleep_for_def split: list.splits)

lemma wait_if_needed_ok:
  "0 < requests_per_min (rate_limiter w) \<Longrightarrow> fst (wait_if_needed w) = Inr ()"
  by (auto simp: wait_if_needed_def Let_def clean_old_timestamps_def
        reset_if_new_day_def sleep_for_def split: list.splits)

lemma wait_if_needed_counts:
  "backoff_waits (snd (wait_if_needed w)) = backoff_waits w"
  "http_attempts (snd (wait_if_needed w)) = http_attempts w"
  by (simp_all add: backoff_waits_def http_attempts_def wait_if_needed_filter)

lemma wait_if_needed_run:
  "0 < requests_per_min (rate_limiter w) \<Longrightarrow> wait_if_needed w = (Inr (), snd (wait_if_needed w))"
  using wait_if_needed_ok [of w] by (metis prod.collapse)

lemma attempt_once_429:
  assumes ok: "0 < requests_per_min (rate_limiter w)"
    and h: "http w = (l, Response 429 b) # rest"
  shows "fst (attempt_once url ps i w) = Inr None"
    and "http (snd (attempt_once url ps i w)) = rest"
    and "requests_per_min (rate_limiter (snd (attempt_once url ps i w))) = requests_per_min (rate_limiter w)"
    and "backoff_waits (snd (attempt_once url ps i w)) = backoff_waits w + 1"
    and "http_attempts (snd (attempt_once url ps i w)) = http_attempts w + 1"
proof -
  define w1 where "w1 = snd (wait_if_needed w)"
  have run: "wait_if_needed w = (Inr (), w1)"
    unfolding w1_def using ok by (rule wait_if_needed_run)
  have h1: "http w1 = (l, Response 429 b) # rest"
    unfolding w1_def using h by (simp add: wait_if_needed_frame)
  have p1: "requests_per_min (rate_limiter w1) = requests_per_min (rate_limiter w)"
    unfolding w1_def by (simp add: wait_if_needed_frame)
  have c1: "backoff_waits w1 = backoff_waits w" "http_attempts w1 = http_attempts w"
    unfolding w1_def by (simp_all add: wait_if_needed_counts)
  show "fst (attempt_once url ps i w) = Inr None"
    by (simp add: attempt_once_def run h1 requests_get_def Let_def split: prod.splits)
  show "http (snd (attempt_once url ps i w)) = rest"
    by (simp add: attempt_once_def run h1 requests_get_def Let_def add_request_def emit_def
          uniform_def sleep_for_def split: prod.splits list.splits)
  show "requests_per_min (rate_limiter (snd (attempt_once url ps i w))) = requests_per_min (rate_limiter w)"
    using p1 by (simp add: attempt_once_def run h1 requests_get_def Let_def add_request_def emit_def
          uniform_def sleep_for_def split: prod.splits list.splits)
  show "backoff_waits (snd (attempt_once url ps i w)) = backoff_waits w + 1"
    using c1 by (simp add: attempt_once_def run h1 requests_get_def Let_def add_request_def emit_def
          uniform_def sleep_for_def backoff_waits_def split: prod.splits list.splits)
  show "http_attempts (snd (attempt_once url ps i w)) = http_attempts w + 1"
    using c1 by (simp add: attempt_once_def run h1 requests_get_def Let_def add_request_def emit_def
          uniform_def sleep_for_def http_attempts_def split: prod.splits list.splits)
qed

lemma attempt_once_success:
  assumes ok: "0 < requests_per_min (rate_limiter w)"
    and h: "http w = (l, Response s p) # rest"
    and s: "\<not> (400 \<le> s \<and> s < 600)" and p: "\<not> dict_has_key ''Error Message'' p"
  shows "fst (attempt_once url ps i w) = Inr (Some p)"
    and "http (snd (attempt_once url ps i w)) = rest"
    and "backoff_waits (snd (attempt_once url ps i w)) = backoff_waits w"
    and "http_attempts (snd (attempt_once url ps i w)) = http_attempts w + 1"
proof -
  define w1 where "w1 = snd (wait_if_needed w)"
  have run: "wait_if_needed w = (Inr (), w1)"
    unfolding w1_def using ok by (rule wait_if_needed_run)
  have h1: "http w1 = (l, Response s p) # rest"
    unfolding w1_def using h by (simp add: wait_if_needed_frame)
  have c1: "backoff_waits w1 = backoff_waits w" "http_attempts w1 = http_attempts w"
    unfolding w1_def by (simp_all add: wait_if_needed_counts)
  have cond: "(400 \<le> s \<and> s < 600) = False" "dict_has_key ''Error Message'' p = False"
    using s p by simp_all
  show "fst (attempt_once url ps i w) = Inr (Some p)"
    by (simp add: cond attempt_once_def run h1 requests_get_def Let_def)
  show "http (snd (attempt_once url ps i w)) = rest"
    by (simp add: cond attempt_once_def run h1 requests_get_def Let_def add_request_def emit_def)
  show "backoff_waits (snd (attempt_once url ps i w)) = backoff_waits w"
    using c1 by (simp add: cond attempt_once_def run h1 requests_get_def Let_def add_request_def emit_def
          backoff_waits_def)
  show "http_attempts (snd (attempt_once url ps i w)) = http_attempts w + 1"
    using c1 by (simp add: cond attempt_once_def run h1 requests_get_def Let_def add_request_def emit_def
          http_attempts_def)
qed




lemma retry_loop_continue:
  "fst (attempt_once url ps i w) = Inr None \<Longrightarrow>
   retry_loop url ps i (Suc k) w = retry_loop url ps (Suc i) k (snd (attempt_once url ps i w))"
  by (cases "attempt_once url ps i w") simp

lemma retry_loop_return:
  "fst (attempt_once url ps i w) = Inr (Some v) \<Longrightarrow>
   retry_loop url ps i (Suc k) w = (Inr v, snd (attempt_once url ps i w))"
  by (cases "attempt_once url ps i w") simp


lemma configure_rate_limiter_frame:
  "http (configure_rate_limiter w) = http w"
  "config (configure_rate_limiter w) = config w"
  "trace (configure_rate_limiter w) = trace w"
  "requests_per_min (rate_limiter (configure_rate_limiter w)) =
     (case cfg_requests_per_min (config w) of None \<Rightarrow> DEFAULT_REQUESTS_PER_MIN | Some n \<Rightarrow> n)"
  by (auto simp: configure_rate_limiter_def Let_def RateLimiter_init_def split: option.splits)

lemma make_api_request_loop:
  assumes "(case api_key of None \<Rightarrow> cfg_api_key (config w) | Some k \<Rightarrow> k) \<noteq> []"
  shows "make_api_request endpoint ps api_key n base_url w =
         retry_loop (base_url @ ''/'' @ endpoint)
           (dict_set ps ''apikey'' (JStr (case api_key of None \<Rightarrow> cfg_api_key (config w) | Some k \<Rightarrow> k)))
           0 (nat n) (configure_rate_limiter (emit (Api_call endpoint ps base_url) w))"
  using assms
  by (simp add: make_api_request_def Let_def configure_rate_limiter_frame emit_def split: option.splits)

lemma entry_world:
  "http (configure_rate_limiter (emit e w)) = http w"
  "backoff_waits (configure_rate_limiter (emit (Api_call a b c) w)) = backoff_waits w"
  "http_attempts (configure_rate_limiter (emit (Api_call a b c) w)) = http_attempts w"
  "requests_per_min (rate_limiter (configure_rate_limiter (emit e w))) =
     (case cfg_requests_per_min (config w) of None \<Rightarrow> DEFAULT_REQUESTS_PER_MIN | Some n \<Rightarrow> n)"
  by (simp_all add: configure_rate_limiter_frame emit_def backoff_waits_def http_attempts_def)


lemma after_two_429:
  assumes key: "(case api_key of None \<Rightarrow> cfg_api_key (config w) | Some k \<Rightarrow> k) \<noteq> []"
    and quota: "0 < (case cfg_requests_per_min (config w) of
                       None \<Rightarrow> DEFAULT_REQUESTS_PER_MIN | Some n \<Rightarrow> n)"
    and hw: "http w = (la, Response 429 ba) # (lb, Response 429 bb) # rest"
  shows "\<exists>url qs wc. make_api_request endpoint ps api_key 3 base_url w = retry_loop url qs 2 1 wc
           \<and> http wc = rest \<and> 0 < requests_per_min (rate_limiter wc)
           \<and> backoff_waits wc = backoff_waits w + 2 \<and> http_attempts wc = http_attempts w + 2"
proof -
  define url where "url = base_url @ ''/'' @ endpoint"
  define qs where "qs = dict_set ps ''apikey''
     (JStr (case api_key of None \<Rightarrow> cfg_api_key (config w) | Some k \<Rightarrow> k))"
  define wa where "wa = configure_rate_limiter (emit (Api_call endpoint ps base_url) w)"
  define wb where "wb = snd (attempt_once url qs 0 wa)"
  define wc where "wc = snd (attempt_once url qs 1 wb)"
  have run: "make_api_request endpoint ps api_key 3 base_url w = retry_loop url qs 0 3 wa"
    unfolding url_def qs_def wa_def using make_api_request_loop [OF key, of endpoint ps 3 base_url]
    by simp
  have a_ok: "0 < requests_per_min (rate_limiter wa)"
    unfolding wa_def using quota by (simp add: entry_world)
  have a_http: "http wa = (la, Response 429 ba) # (lb, Response 429 bb) # rest"
    unfolding wa_def by (simp add: entry_world hw)
  have a_cnt: "backoff_waits wa = backoff_waits w" "http_attempts wa = http_attempts w"
    unfolding wa_def by (simp_all add: entry_world)
  note A = attempt_once_429 [OF a_ok a_http, of url qs 0, folded wb_def]
  have b_ok: "0 < requests_per_min (rate_limiter wb)" using A(3) a_ok by simp
  note B = attempt_once_429 [OF b_ok A(2), of url qs 1, folded wc_def]
  have c_ok: "0 < requests_per_min (rate_limiter wc)" using B(3) b_ok by simp
  have two: "retry_loop url qs 0 3 wa = retry_loop url qs 2 1 wc"
    using retry_loop_continue [of url qs 0 wa 2] retry_loop_continue [of url qs 1 wb 1] A(1) B(1)
    by (simp add: wb_def wc_def eval_nat_numeral)
  have cnt: "backoff_waits wc = backoff_waits w + 2" "http_attempts wc = http_attempts w + 2"
    using A(4,5) B(4,5) a_cnt by simp_all
  show ?thesis
    using run two B(2) c_ok cnt by auto
qed

lemmas run_defs =
  make_api_request_def configure_rate_limiter_def attempt_once_def wait_if_needed_def
  reset_if_new_day_def clean_old_timestamps_def small_delay_def uniform_def sleep_for_def
  requests_get_def add_request_def emit_def backoff_def RateLimiter_init_def idle_world_def
  timedelta_days_def date_of_def DAY_def MINUTE_def SECOND_def
  DEFAULT_REQUESTS_PER_MIN_def DEFAULT_REQUESTS_PER_DAY_def REQUEST_DELAY_def
  RATE_LIMIT_BACKOFF_FACTOR_def API_BASE_URL_def Let_def

section \<open>Daily reset\<close>

text \<open>
  C3. The claim: the daily counter is reset when and only when the calendar date has
  advanced past the day-start reference. The code tests
  \<^verbatim>\<open>(now - self.day_start_time).days > 0\<close>, that is, 24 hours elapsed. A limiter
  whose reference is day 0 at 23:00, observed on day 1 at 01:00 with 5 requests counted,
  keeps its counter and its reference although the date has advanced.
\<close>

theorem reset_if_new_day_misses_midnight:
  "date_of 90000000000 > date_of 82800000000 \<and>
   rate_limiter (reset_if_new_day
     \<lparr>clock = 90000000000,
      rate_limiter = \<lparr>requests_per_min = 5, requests_per_day = 250, daily_request_count = 5,
                      minute_request_timestamps = [], day_start_time = 82800000000\<rparr>,
      config = \<lparr>cfg_api_key = ''k'', cfg_requests_per_min = None, cfg_requests_per_day = None\<rparr>,
      http = [], rnd = [], trace = []\<rparr>)
   = \<lparr>requests_per_min = 5, requests_per_day = 250, daily_request_count = 5,
      minute_request_timestamps = [], day_start_time = 82800000000\<rparr>"
  by (simp add: reset_if_new_day_def timedelta_days_def date_of_def DAY_def SECOND_def)

section \<open>Per-minute window\<close>

text \<open>
  C2. The claim: once \<open>requests_per_min\<close> requests are recorded inside a rolling
  60-second window, no further request gets through in that window. After a quota wait
  the code replaces the whole timestamp list by the single entry \<^verbatim>\<open>[datetime.now()]\<close>,
  forgetting the requests that are still less than a minute old. With the default quota
  of 5: one request at 0.1 s, four around 50 s, a sixth acquisition that waits 10.6 s,
  and then three more that pass with no quota wait: 8 requests recorded between 50 s and
  110 s.
\<close>

theorem minute_window_overrun:
  "fst (paced_requests [0, 50 * SECOND, 0, 0, 0, 0, 0, 0, 0] idle_world)
     = [100000, 50200000, 50300000, 50400000, 50500000, 61200000, 61300000, 61400000, 61500000]
   \<and> requests_within (50 * SECOND) (110 * SECOND)
        (fst (paced_requests [0, 50 * SECOND, 0, 0, 0, 0, 0, 0, 0] idle_world)) = 8
   \<and> filter is_quota_sleep (trace (snd (paced_requests [0, 50 * SECOND, 0, 0, 0, 0, 0, 0, 0] idle_world)))
     = [Quota_sleep 10600000]
   \<and> requests_per_min (rate_limiter idle_world) = 5"
  by (simp add: run_defs elapse_def requests_within_def)

section \<open>Retry loop\<close>

text \<open>
  C1. With \<open>max_retries = 3\<close>, an API key available and a positive per-minute quota
  configured, for every endpoint, parameters and base URL: if the injected outcomes are
  [429, 429, success] (success: a status outside 400..599 and a body without an
  "Error Message" field) then \<open>make_api_request\<close> returns the parsed body after exactly
  2 backoff waits and 3 HTTP attempts; if they are [429, 429, 429] it returns
  \<^verbatim>\<open>None\<close> after exactly 3 HTTP attempts (each followed by its backoff wait).
\<close>

theorem retry_429_429_outcome:
  assumes key: "(case api_key of None \<Rightarrow> cfg_api_key (config w) | Some k \<Rightarrow> k) \<noteq> []"
    and quota: "0 < (case cfg_requests_per_min (config w) of
                       None \<Rightarrow> DEFAULT_REQUESTS_PER_MIN | Some n \<Rightarrow> n)"
  shows "(http w = [(la, Response 429 ba), (lb, Response 429 bb), (lc, Response s p)]
            \<and> \<not> (400 \<le> s \<and> s < 600) \<and> \<not> dict_has_key ''Error Message'' p \<longrightarrow>
          fst (make_api_request endpoint ps api_key 3 base_url w) = Inr p \<and>
          backoff_waits (snd (make_api_request endpoint ps api_key 3 base_url w)) = backoff_waits w + 2 \<and>
          http_attempts (snd (make_api_request endpoint ps api_key 3 base_url w)) = http_attempts w + 3)
       \<and> (http w = [(la, Response 429 ba), (lb, Response 429 bb), (lc, Response 429 bc)] \<longrightarrow>
          fst (make_api_request endpoint ps api_key 3 base_url w) = Inr JNull \<and>
          backoff_waits (snd (make_api_request endpoint ps api_key 3 base_url w)) = backoff_waits w + 3 \<and>
          http_attempts (snd (make_api_request endpoint ps api_key 3 base_url w)) = http_attempts w + 3)"
proof (intro conjI impI)
  assume h: "http w = [(la, Response 429 ba), (lb, Response 429 bb), (lc, Response s p)]
     \<and> \<not> (400 \<le> s \<and> s < 600) \<and> \<not> dict_has_key ''Error Message'' p"
  from after_two_429 [OF key quota, of la ba lb bb "[(lc, Response s p)]" endpoint ps base_url] h
  obtain url qs wc where
    run: "make_api_request endpoint ps api_key 3 base_url w = retry_loop url qs 2 1 wc"
    and c: "http wc = [(lc, Response s p)]" "0 < requests_per_min (rate_limiter wc)"
    "backoff_waits wc = backoff_waits w + 2" "http_attempts wc = http_attempts w + 2"
    by auto
  note C = attempt_once_success [OF c(2) c(1), of url qs 2]
  have "retry_loop url qs 2 1 wc = (Inr p, snd (attempt_once url qs 2 wc))"
    using retry_loop_return [of url qs 2 wc p 0] C(1) h by simp
  with C(3,4) c(3,4) h run
  show "fst (make_api_request endpoint ps api_key 3 base_url w) = Inr p"
    and "backoff_waits (snd (make_api_request endpoint ps api_key 3 base_url w)) = backoff_waits w + 2"
    and "http_attempts (snd (make_api_request endpoint ps api_key 3 base_url w)) = http_attempts w + 3"
    by simp_all
next
  assume h: "http w = [(la, Response 429 ba), (lb, Response 429 bb), (lc, Response 429 bc)]"
  from after_two_429 [OF key quota, of la ba lb bb "[(lc, Response 429 bc)]" endpoint ps base_url] h
  obtain url qs wc where
    run: "make_api_request endpoint ps api_key 3 base_url w = retry_loop url qs 2 1 wc"
    and c: "http wc = [(lc, Response 429 bc)]" "0 < requests_per_min (rate_limiter wc)"
    "backoff_waits wc = backoff_waits w + 2" "http_attempts wc = http_attempts w + 2"
    by auto
  note C = attempt_once_429 [OF c(2) c(1), of url qs 2]
  have "retry_loop url qs 2 1 wc = (Inr JNull, snd (attempt_once url qs 2 wc))"
    using retry_loop_continue [of url qs 2 wc 0] C(1) by simp
  with C(4,5) c(3,4) run
  show "fst (make_api_request endpoint ps api_key 3 base_url w) = Inr JNull"
    and "backoff_waits (snd (make_api_request endpoint ps api_key 3 base_url w)) = backoff_waits w + 3"
    and "http_attempts (snd (make_api_request endpoint ps api_key 3 base_url w)) = http_attempts w + 3"
    by simp_all
qed

theorem retry_429_429_outcome_witness:
  "fst (make_api_request ''quote/AAPL'' [] None 3 API_BASE_URL
         (idle_world\<lparr>http := [(0, Response 429 JNull), (0, Response 429 JNull),
                               (0, Response 200 (JArr [JObj [(''price'', JNum 1)]]))]\<rparr>))
     = Inr (JArr [JObj [(''price'', JNum 1)]])
   \<and> backoff_waits (snd (make_api_request ''quote/AAPL'' [] None 3 API_BASE_URL
         (idle_world\<lparr>http := [(0, Response 429 JNull), (0, Response 429 JNull),
                               (0, Response 200 (JArr [JObj [(''price'', JNum 1)]]))]\<rparr>))) = 2
   \<and> fst (make_api_request ''quote/AAPL'' [] None 3 API_BASE_URL
         (idle_world\<lparr>http := [(0, Response 429 JNull), (0, Response 429 JNull),
                               (0, Response 429 JNull)]\<rparr>)) = Inr JNull
   \<and> http_attempts (snd (make_api_request ''quote/AAPL'' [] None 3 API_BASE_URL
         (idle_world\<lparr>http := [(0, Response 429 JNull), (0, Response 429 JNull),
                               (0, Response 429 JNull)]\<rparr>))) = 3"
  using
    retry_429_429_outcome [where api_key = None and endpoint = "''quote/AAPL''" and ps = "[]"
      and base_url = API_BASE_URL and la = 0 and lb = 0 and lc = 0 and ba = JNull and bb = JNull
      and bc = JNull and s = 200 and p = "JArr [JObj [(''price'', JNum 1)]]"
      and w = "idle_world\<lparr>http := [(0, Response 429 JNull), (0, Response 429 JNull),
        (0, Response 200 (JArr [JObj [(''price'', JNum 1)]]))]\<rparr>"]
    retry_429_429_outcome [where api_key = None and endpoint = "''quote/AAPL''" and ps = "[]"
      and base_url = API_BASE_URL and la = 0 and lb = 0 and lc = 0 and ba = JNull and bb = JNull
      and bc = JNull and s = 200 and p = "JArr [JObj [(''price'', JNum 1)]]"
      and w = "idle_world\<lparr>http := [(0, Response 429 JNull), (0, Response 429 JNull),
        (0, Response 429 JNull)]\<rparr>"]
  by (simp add: idle_world_def DEFAULT_REQUESTS_PER_MIN_def backoff_waits_def http_attempts_def)



section \<open>Recording requests\<close>

text \<open>
  C4, as stated, fails: \<^verbatim>\<open>add_request\<close> follows \<^verbatim>\<open>requests.get\<close> inside the
  \<^verbatim>\<open>try\<close> block, so a network-level error raised by the call skips it. One attempt
  against a dead network makes the HTTP call and records nothing.
\<close>

theorem network_error_is_not_recorded:
  "trace (snd (make_api_request ''quote/AAPL'' [] None 1 API_BASE_URL
                 (idle_world\<lparr>http := [(0, NetworkError)]\<rparr>)))
   = [Api_call ''quote/AAPL'' [] API_BASE_URL, Jitter_sleep 100000,
      Http_get (API_BASE_URL @ ''/quote/AAPL'') [(''apikey'', JStr ''demo'')],
      Backoff_sleep 12000000]"
  by (simp add: run_defs)

text \<open>
  C4, amended. In every attempt that the limiter lets through, the events are: the
  limiter's sleeps, the HTTP call, then exactly one \<open>Recorded\<close> when the call
  returned a response (whatever its status) and none when it raised a network-level
  error, then at most the backoff sleep.
\<close>

theorem add_request_follows_response:
  "fst (wait_if_needed w) = Inr () \<longrightarrow>
   (\<exists>pre post.
      trace (snd (attempt_once url ps i w))
        = trace w @ pre
          @ (case next_reply w of
               Response status_code body \<Rightarrow> [Http_get url ps, Recorded]
             | NetworkError \<Rightarrow> [Http_get url ps])
          @ post
      \<and> (\<forall>e \<in> set pre. is_limiter_sleep e) \<and> (\<forall>e \<in> set post. is_backoff e))"
proof
  assume ok: "fst (wait_if_needed w) = Inr ()"
  define w1 where "w1 = snd (wait_if_needed w)"
  have run: "wait_if_needed w = (Inr (), w1)"
    unfolding w1_def using ok by (metis prod.collapse)
  obtain pre where pre: "trace w1 = trace w @ pre" "\<forall>e \<in> set pre. is_limiter_sleep e"
    unfolding w1_def using wait_if_needed_trace [of w] by blast
  have h1: "http w1 = http w"
    unfolding w1_def by (simp add: wait_if_needed_frame)
  have "\<exists>post. trace (snd (attempt_once url ps i w))
        = trace w1
          @ (case next_reply w of
               Response status_code body \<Rightarrow> [Http_get url ps, Recorded]
             | NetworkError \<Rightarrow> [Http_get url ps])
          @ post \<and> (\<forall>e \<in> set post. is_backoff e)"
    using h1
    by (auto simp: attempt_once_def run requests_get_def next_reply_def add_request_def emit_def
          uniform_def sleep_for_def Let_def split: list.splits reply.splits prod.splits)
  with pre show "\<exists>pre post.
      trace (snd (attempt_once url ps i w))
        = trace w @ pre
          @ (case next_reply w of
               Response status_code body \<Rightarrow> [Http_get url ps, Recorded]
             | NetworkError \<Rightarrow> [Http_get url ps])
          @ post
      \<and> (\<forall>e \<in> set pre. is_limiter_sleep e) \<and> (\<forall>e \<in> set post. is_backoff e)"
    by auto
qed

theorem add_request_follows_response_witness:
  "fst (wait_if_needed (idle_world\<lparr>http := [(0, Response 500 JNull)]\<rparr>)) = Inr ()
   \<and> (\<exists>pre post.
        trace (snd (attempt_once ''u'' [] 0 (idle_world\<lparr>http := [(0, Response 500 JNull)]\<rparr>)))
          = pre @ [Http_get ''u'' [], Recorded] @ post
        \<and> (\<forall>e \<in> set pre. is_limiter_sleep e) \<and> (\<forall>e \<in> set post. is_backoff e))"
proof -
  have ok: "fst (wait_if_needed (idle_world\<lparr>http := [(0, Response 500 JNull)]\<rparr>)) = Inr ()"
    by (simp add: run_defs)
  show ?thesis
    using ok add_request_follows_response [where w = "idle_world\<lparr>http := [(0, Response 500 JNull)]\<rparr>"
        and url = "''u''" and ps = "[]" and i = 0]
    by (simp add: next_reply_def idle_world_def)
qed

section \<open>Evaluating the fetchers\<close>

lemma retry_loop_numeral:
  "retry_loop url ps i (numeral n) w =
     (case attempt_once url ps i w of
        (Inl e, w') \<Rightarrow> (Inl e, w')
      | (Inr (Some v), w') \<Rightarrow> (Inr v, w')
      | (Inr None, w') \<Rightarrow> retry_loop url ps (Suc i) (pred_numeral n) w')"
  by (simp add: numeral_eq_Suc)

lemmas table_defs =
  historical_price_table_def intraday_table_def dividends_table_def profile_table_def
  statement_table_def DataFrame_def union_keys_def record_row_def frame_empty_def
  get_column_def set_column_def to_datetime_cell_def convert_dates_def drop_at_def set_index_def
  sort_index_def rename_columns_def cell_at_def and_then_def known_dates_def price_columns_def
  intraday_columns_def

lemmas fetch_defs =
  fetch_historical_price_def fetch_intraday_prices_def fetch_historical_dividends_def
  fetch_company_profile_def fetch_statement_def fetch_income_statement_def
  fetch_balance_sheet_def fetch_cash_flow_def fetch_ticker_data_def then_fetch_def
  str_truthy_def str_param_def valid_intervals_def MAX_RETRIES_def api_calls_def
  retry_loop_numeral

section \<open>API calls made by a fetch\<close>

lemma attempt_once_api_calls: "api_calls (snd (attempt_once url ps i w)) = api_calls w"
proof -
  obtain r w1 where run: "wait_if_needed w = (r, w1)" by (cases "wait_if_needed w")
  have c1: "filter is_api_call (trace w1) = filter is_api_call (trace w)"
    using wait_if_needed_filter [of is_api_call w] run by simp
  show ?thesis
    using c1
    by (auto simp: attempt_once_def run requests_get_def Let_def add_request_def emit_def
          uniform_def sleep_for_def api_calls_def
          split: sum.splits list.splits prod.splits reply.splits if_splits)
qed

lemma retry_loop_api_calls: "api_calls (snd (retry_loop url ps i k w)) = api_calls w"
proof (induction k arbitrary: i w)
  case 0
  show ?case by simp
next
  case (Suc k)
  obtain r w' where a: "attempt_once url ps i w = (r, w')" by (cases "attempt_once url ps i w")
  have w': "api_calls w' = api_calls w"
    using attempt_once_api_calls [of url ps i w] a by simp
  show ?case
    using Suc.IH [of "Suc i" w'] w' by (simp add: a split: sum.splits option.splits)
qed

lemma make_api_request_api_calls:
  "api_calls (snd (make_api_request endpoint ps api_key n base_url w))
     = api_calls w @ [Api_call endpoint ps base_url]"
proof -
  have "api_calls (configure_rate_limiter (emit (Api_call endpoint ps base_url) w))
          = api_calls w @ [Api_call endpoint ps base_url]"
    by (simp add: api_calls_def configure_rate_limiter_frame emit_def)
  then show ?thesis
    by (simp add: make_api_request_def Let_def retry_loop_api_calls)
qed

lemma make_api_request_later:
  "prefix (api_calls w) (api_calls (snd (make_api_request endpoint ps api_key n base_url w)))"
  by (simp add: make_api_request_api_calls)

lemma then_fetch_later:
  assumes "prefix (api_calls w) (api_calls (snd r))"
    and "\<And>x w1. prefix (api_calls w1) (api_calls (snd (f x w1)))"
  shows "prefix (api_calls w) (api_calls (snd (then_fetch r f)))"
proof (cases r)
  case (Pair a w1)
  show ?thesis
  proof (cases a)
    case (Inl e)
    with Pair assms(1) show ?thesis by (simp add: then_fetch_def)
  next
    case (Inr x)
    with Pair assms(1) assms(2) [of w1 x] show ?thesis
      by (auto simp: then_fetch_def intro: prefix_order.trans)
  qed
qed

lemma then_fetch_pure_calls:
  "api_calls (snd (then_fetch r (\<lambda>x w'. (g x, w')))) = api_calls (snd r)"
  by (cases r; cases "fst r") (auto simp: then_fetch_def)

lemma fetch_historical_price_calls:
  "api_calls (snd (fetch_historical_price parse ticker from_date to_date api_key w))
     = api_calls w @
       [Api_call (if str_truthy from_date \<and> str_truthy to_date then ''historical-price-full''
                  else ''historical-price-full/'' @ ticker)
          (if str_truthy from_date \<and> str_truthy to_date
           then [(''serietype'', JStr ''line''), (''from'', str_param from_date),
                 (''to'', str_param to_date)]
           else [(''serietype'', JStr ''line'')])
          API_BASE_URL]"
  unfolding fetch_historical_price_def Let_def then_fetch_pure_calls make_api_request_api_calls
  by (rule refl)

lemma fetch_intraday_prices_calls:
  assumes "str_truthy from_date" "str_truthy to_date" "interval \<in> set valid_intervals"
  shows "api_calls (snd (fetch_intraday_prices parse ticker interval from_date to_date extended api_key w))
     = api_calls w @
       [Api_call (''historical-chart/'' @ interval @ ''/'' @ ticker)
          [(''from'', str_param from_date), (''to'', str_param to_date),
           (''extended'', JStr (if extended then ''true'' else ''false''))]
          API_BASE_URL]"
proof -
  have "fetch_intraday_prices parse ticker interval from_date to_date extended api_key w
      = then_fetch
              (make_api_request (''historical-chart/'' @ interval @ ''/'' @ ticker)
                 [(''from'', str_param from_date), (''to'', str_param to_date),
                   (''extended'', JStr (if extended then ''true'' else ''false''))] api_key
                 MAX_RETRIES API_BASE_URL w)
              (\<lambda>data w'. (intraday_table parse data, w'))"
    using assms unfolding fetch_intraday_prices_def Let_def by simp
  then show ?thesis
    by (simp only: then_fetch_pure_calls make_api_request_api_calls)
qed

lemma fetch_historical_dividends_later:
  "prefix (api_calls w) (api_calls (snd (fetch_historical_dividends parse ticker api_key w)))"
  unfolding fetch_historical_dividends_def
  by (rule then_fetch_later) (simp_all add: make_api_request_later)

lemma fetch_company_profile_later:
  "prefix (api_calls w) (api_calls (snd (fetch_company_profile ticker api_key w)))"
  unfolding fetch_company_profile_def
  by (intro then_fetch_later make_api_request_later) (auto simp: make_api_request_later)

lemma fetch_statement_later:
  "prefix (api_calls w) (api_calls (snd (fetch_statement stem parse ticker period limit api_key w)))"
  unfolding fetch_statement_def
  by (intro then_fetch_later make_api_request_later) (auto simp: make_api_request_later)

lemma fetch_ticker_data_intraday_call:
  assumes price: "fetch_historical_price parse ticker from_date to_date api_key w = (Inr price_data, w1)"
    and want: "include_intraday" "str_truthy from_date" "str_truthy to_date"
  shows "prefix
           (api_calls w1 @
              [Api_call (''historical-chart/1hour/'' @ ticker)
                 [(''from'', str_param from_date), (''to'', str_param to_date),
                  (''extended'', JStr ''false'')]
                 API_BASE_URL])
           (api_calls (snd (fetch_ticker_data parse ticker api_key period years include_intraday
                              include_dividends from_date to_date w)))"
proof -
  have calls: "api_calls (snd (fetch_intraday_prices parse ticker ''1hour'' from_date to_date False api_key w1))
     = api_calls w1 @
         [Api_call (''historical-chart/1hour/'' @ ticker)
            [(''from'', str_param from_date), (''to'', str_param to_date),
             (''extended'', JStr ''false'')]
            API_BASE_URL]"
    using fetch_intraday_prices_calls [of from_date to_date "''1hour''" parse ticker False api_key w1]
      want by (simp add: valid_intervals_def)
  have "prefix (api_calls (snd (fetch_intraday_prices parse ticker ''1hour'' from_date to_date False api_key w1)))
          (api_calls (snd (fetch_ticker_data parse ticker api_key period years include_intraday
                              include_dividends from_date to_date w)))"
    unfolding fetch_ticker_data_def price
    apply (simp add: then_fetch_def [of "(Inr price_data, w1)"] want)
    apply (rule then_fetch_later)
     apply simp
    apply (intro then_fetch_later)
          apply (auto simp: fetch_historical_dividends_later fetch_company_profile_later
        fetch_statement_later fetch_income_statement_def fetch_balance_sheet_def fetch_cash_flow_def)
    done
  then show ?thesis
    by (simp only: calls)
qed



section \<open>Endpoint fallback\<close>



section \<open>Price normalization\<close>










section \<open>Missing and empty payloads\<close>

lemma no_historical_is_none:
  "\<not> truthy data \<Longrightarrow> historical_price_table parse data = Inr None"
  "truthy data \<Longrightarrow> py_contains ''historical'' data = Inr False \<Longrightarrow>
     historical_price_table parse data = Inr None"
  by (simp_all add: historical_price_table_def and_then_def)

lemma empty_intraday_is_none:
  "\<not> truthy data \<Longrightarrow> intraday_table parse data = Inr None"
  by (simp add: intraday_table_def)

lemma empty_dividends_is_none:
  "dividends_table parse (JObj [(''historical'', JArr [])]) = Inr None"
  by (simp add: table_defs)

text \<open>
  C8. The claim: a payload whose "historical" field is absent or empty normalizes to
  \<^verbatim>\<open>None\<close> without an exception. An absent field does (see above), and so does an
  empty intraday or dividend payload, but \<^verbatim>\<open>fetch_historical_price\<close> has no
  \<^verbatim>\<open>df.empty\<close> check: on \<^verbatim>\<open>{"symbol": "AAPL", "historical": []}\<close> it builds a frame
  without columns and \<^verbatim>\<open>df["date"]\<close> raises \<^verbatim>\<open>KeyError\<close>.
\<close>

theorem empty_historical_raises:
  "fst (fetch_historical_price parse ''AAPL'' None None None
         (idle_world\<lparr>http := [(0, Response 200 (JObj [(''symbol'', JStr ''AAPL''),
                                                        (''historical'', JArr [])]))]\<rparr>))
   = Inl (KeyError ''date'')"
  by (simp add: fetch_defs run_defs table_defs)

section \<open>The profile endpoint\<close>

text \<open>
  C10. The claim: the primary request of \<open>fetch_company_profile\<close> goes to a path that
  incorporates the ticker. The endpoint is the plain string \<^verbatim>\<open>"profile/{ticker}"\<close>
  (no \<^verbatim>\<open>f\<close> prefix, no \<^verbatim>\<open>.format\<close>, unlike the statement fetchers), so the request
  for AAPL goes to the literal path \<^verbatim>\<open>profile/{ticker}\<close>.
\<close>

theorem profile_endpoint_ignores_ticker:
  "trace (snd (fetch_company_profile ''AAPL'' None
         (idle_world\<lparr>http := [(0, Response 200 (JArr [JObj [(''symbol'', JStr ''AAPL'')]]))]\<rparr>)))
   = [Api_call ''profile/{ticker}'' [] API_BASE_URL, Jitter_sleep 100000,
      Http_get (API_BASE_URL @ ''/profile/{ticker}'') [(''apikey'', JStr ''demo'')], Recorded]"
  by (simp add: fetch_defs run_defs table_defs)

section \<open>Intraday range\<close>

text \<open>The command-line handler does limit the range to the 7 days before the to-date.\<close>

lemma handle_fetch_limits_range:
  "f \<noteq> [] \<Longrightarrow> t \<noteq> [] \<Longrightarrow> timedelta_days (strptime t - strptime f) > 7 \<Longrightarrow>
   limit_intraday_range strptime strftime True (Some f) (Some t)
     = Some (strftime (strptime t - 7 * DAY))"
  by (simp add: limit_intraday_range_def Let_def)

lemma dead_network_price:
  "fst (fetch_historical_price parse ''AAPL'' (Some ''2024-01-01'') (Some ''2024-02-01'') None idle_world)
     = Inr None"
  by (simp add: fetch_defs run_defs table_defs)

text \<open>
  C9. The claim: a range longer than 7 days is clamped to the 7 days before the to-date
  before the intraday request is issued. \<open>fetch_ticker_data\<close> carries the comment
  "Limit intraday data to 1 week" but passes the caller's dates on unchanged: asked for
  2024-01-01 to 2024-02-01, its second API call is the intraday request with
  \<^verbatim>\<open>from=2024-01-01\<close>.
\<close>

theorem ticker_data_intraday_unclamped:
  "take 2 (api_calls (snd (fetch_ticker_data parse ''AAPL'' None ''annual'' 10 True False
                    (Some ''2024-01-01'') (Some ''2024-02-01'') idle_world)))
   = [Api_call ''historical-price-full''
        [(''serietype'', JStr ''line''), (''from'', JStr ''2024-01-01''), (''to'', JStr ''2024-02-01'')]
        API_BASE_URL,
      Api_call ''historical-chart/1hour/AAPL''
        [(''from'', JStr ''2024-01-01''), (''to'', JStr ''2024-02-01''), (''extended'', JStr ''false'')]
        API_BASE_URL]"
proof -
  define w1 where "w1 = snd (fetch_historical_price parse ''AAPL'' (Some ''2024-01-01'')
     (Some ''2024-02-01'') None idle_world)"
  have price: "fetch_historical_price parse ''AAPL'' (Some ''2024-01-01'') (Some ''2024-02-01'') None
     idle_world = (Inr None, w1)"
    unfolding w1_def using dead_network_price [of parse] by (metis prod.collapse)
  have c1: "api_calls w1 = [Api_call ''historical-price-full''
        [(''serietype'', JStr ''line''), (''from'', JStr ''2024-01-01''), (''to'', JStr ''2024-02-01'')]
        API_BASE_URL]"
    unfolding w1_def fetch_historical_price_calls
    by (simp add: str_truthy_def str_param_def api_calls_def idle_world_def)
  from fetch_ticker_data_intraday_call [OF price, where include_intraday = True and period = "''annual''"
      and years = 10 and include_dividends = False]
  obtain rest where "api_calls (snd (fetch_ticker_data parse ''AAPL'' None ''annual'' 10 True False
                    (Some ''2024-01-01'') (Some ''2024-02-01'') idle_world))
     = (api_calls w1 @
              [Api_call (''historical-chart/1hour/'' @ ''AAPL'')
                 [(''from'', str_param (Some ''2024-01-01'')), (''to'', str_param (Some ''2024-02-01'')),
                  (''extended'', JStr ''false'')]
                 API_BASE_URL]) @ rest"
    by (auto simp: str_truthy_def prefix_def)
  then show ?thesis
    by (simp add: c1 str_param_def)
qed

end
